theory Spec2Isabelle
  imports Complex_Main
begin

section \<open>Data model of \<open>src/components/MapView.jsx\<close>\<close>

text \<open>
  JavaScript numbers (longitudes, latitudes, prices, zoom levels) are only stored and
  passed on by the component, never computed with; they are modelled as reals.
  A GeoJSON position is the pair longitude, latitude.
\<close>

type_synonym number = real
type_synonym position = "number \<times> number"

text \<open>
  The \<open>coordinates\<close> member of a GeoJSON geometry: one position (Point), a sequence of
  positions (LineString) or a sequence of rings (Polygon). A geometry is the object
  \<open>{ type, coordinates }\<close>; the component reads both members and checks neither against
  the other.
\<close>

datatype coords = Position position | Positions "position list" | Rings "position list list"

record geojson_geometry =
  gtype :: string
  coordinates :: coords

text \<open>
  A property record as the backend sends it. \<open>price\<close> is \<open>None\<close> when the member is
  absent (\<open>undefined\<close>) or \<open>null\<close>: the two values the operator \<open>??\<close> replaces.
\<close>

record property_record =
  pid :: string
  title :: string
  price :: "number option"
  location :: geojson_geometry

text \<open>The value of \<open>p.price ?? ''\<close>: the number, or the empty string.\<close>

datatype price_value = Num number | Str string

record properties =
  id_prop :: string
  title_prop :: string
  price_prop :: price_value

record feature =
  ftype :: string
  properties :: properties
  geometry :: geojson_geometry

record feature_collection =
  fctype :: string
  features :: "feature list"

text \<open>
  The memoised derivation \<open>geojson\<close> (lines 76 to 87): \<open>items\<close> is always an array here
  (the state starts as \<open>[]\<close> and every writer stores \<open>data.items || []\<close>), so
  \<open>(items || [])\<close> is \<open>items\<close>.
\<close>

definition geojson :: "property_record list \<Rightarrow> feature_collection" where
  "geojson items =
     \<lparr>fctype = ''FeatureCollection'',
      features = map (\<lambda>p.
        \<lparr>ftype = ''Feature'',
         properties =
           \<lparr>id_prop = pid p,
            title_prop = title p,
            price_prop = (case price p of None \<Rightarrow> Str '''' | Some n \<Rightarrow> Num n)\<rparr>,
         geometry = location p\<rparr>) items\<rparr>"

section \<open>The controller's state\<close>

text \<open>
  What a rejected promise or a thrown exception carries: \<open>NetworkError\<close> when \<open>fetch\<close>
  rejects, \<open>SyntaxError\<close> when \<open>res.json()\<close> rejects (the body is not JSON),
  \<open>TypeError\<close> when a member of \<open>null\<close> or \<open>undefined\<close> is read.
\<close>

datatype error = NetworkError | SyntaxError | TypeError

text \<open>
  The value \<open>res.json()\<close> resolves to, as far as the component looks at it: \<open>null\<close>, or
  any other JSON value together with what reading its member \<open>items\<close> gives. \<open>None\<close>
  stands for a falsy \<open>items\<close> (the member is missing or \<open>null\<close>), \<open>Some xs\<close> for an
  array of property records (an empty array is truthy). The backend's contract
  \<open>{ items: PropertyRecord[] }\<close> is taken for granted whenever \<open>items\<close> is truthy.
\<close>

datatype json = JsonNull | JsonValue "property_record list option"

text \<open>How a fetch settles: \<open>fetch\<close> rejects, \<open>res.json()\<close> rejects, or a JSON value arrives.\<close>

datatype response = FetchRejects | JsonRejects | Json json

text \<open>One call of \<open>fetch\<close>: the URL, the method and the polygon of the JSON body, if any.\<close>

record request =
  url :: string
  http_method :: string
  body :: "geojson_geometry option"

text \<open>The asynchronous functions of the component; a suspended one waits for its fetch.\<close>

datatype operation = LoadAll | RunSearch | ClearSearch

text \<open>A feature held by the drawing tool (\<open>draw.getAll().features\<close>).\<close>

record drawn_feature =
  drawn_id :: string
  drawn_geometry :: geojson_geometry

text \<open>
  The map object behind \<open>mapRef\<close>: what \<open>isStyleLoaded()\<close> answers, the value of
  \<open>geojson\<close> that the \<open>load\<close> handler closed over when the mount effect ran, and the
  data of the source \<open>properties\<close> (\<open>None\<close> until \<open>addSource\<close>).
\<close>

record surface =
  style_loaded :: bool
  load_data :: feature_collection
  source :: "feature_collection option"

text \<open>
  The component's state: the environment value \<open>VITE_BACKEND_URL\<close> (\<open>None\<close> when it is
  not set), the React state \<open>items\<close> and \<open>loading\<close>, the two refs, and what the
  component has done to the outside: the fetch calls issued, the asynchronous functions
  still awaiting their fetch, the errors passed to \<open>console.error\<close>, and the errors
  that left an asynchronous function as a rejected promise.
\<close>

record controller =
  backend :: "string option"
  items :: "property_record list"
  loading :: bool
  mapRef :: "surface option"
  drawRef :: "drawn_feature list option"
  requests :: "request list"
  pending :: "operation list"
  console :: "error list"
  unhandled :: "error list"

definition init :: "string option \<Rightarrow> controller" where
  "init b =
     \<lparr>backend = b, items = [], loading = True, mapRef = None, drawRef = None,
      requests = [], pending = [], console = [], unhandled = []\<rparr>"

section \<open>Fetching\<close>

text \<open>A template literal \<open>${v}\<close> prints an undefined value as the text \<open>undefined\<close>.\<close>

definition template :: "string option \<Rightarrow> string" where
  "template v = (case v of None \<Rightarrow> ''undefined'' | Some s \<Rightarrow> s)"

text \<open>The two fetch calls of the component: lines 178 and 208, and lines 196 to 200.\<close>

definition properties_request :: "string option \<Rightarrow> request" where
  "properties_request b =
     \<lparr>url = template b @ ''/api/properties'', http_method = ''GET'', body = None\<rparr>"

definition search_request :: "string option \<Rightarrow> coords \<Rightarrow> request" where
  "search_request b cs =
     \<lparr>url = template b @ ''/api/properties/search'', http_method = ''POST'',
      body = Some \<lparr>gtype = ''Polygon'', coordinates = cs\<rparr>\<rparr>"

text \<open>Calling \<open>fetch\<close> issues the request and suspends the calling function at its \<open>await\<close>.\<close>

definition fetch :: "request \<Rightarrow> operation \<Rightarrow> controller \<Rightarrow> controller" where
  "fetch req op s = s\<lparr>requests := requests s @ [req], pending := pending s @ [op]\<rparr>"

text \<open>
  What the statements \<open>const res = await fetch(...)\<close>, \<open>const data = await res.json()\<close>
  and the expression \<open>data.items || []\<close> give once the fetch has settled: the error
  thrown, or the value handed to \<open>setItems\<close>.
\<close>

definition awaited_items :: "response \<Rightarrow> error + property_record list" where
  "awaited_items r =
     (case r of
        FetchRejects \<Rightarrow> Inl NetworkError
      | JsonRejects \<Rightarrow> Inl SyntaxError
      | Json JsonNull \<Rightarrow> Inl TypeError
      | Json (JsonValue its) \<Rightarrow> Inr (case its of None \<Rightarrow> [] | Some xs \<Rightarrow> xs))"

section \<open>Effects and handlers\<close>

text \<open>
  The effect on \<open>[geojson]\<close> (lines 167 to 172): it returns when there is no map or the
  style is not loaded, and sets the data only when the source exists.
\<close>

definition syncSource :: "controller \<Rightarrow> controller" where
  "syncSource s =
     (case mapRef s of
        None \<Rightarrow> s
      | Some m \<Rightarrow>
          if \<not> style_loaded m then s
          else (case source m of
                  None \<Rightarrow> s
                | Some _ \<Rightarrow> s\<lparr>mapRef := Some (m\<lparr>source := Some (geojson (items s))\<rparr>)\<rparr>))"

text \<open>
  \<open>setItems\<close> stores the new array; the component renders again, \<open>geojson\<close> is
  recomputed and its effect runs.
\<close>

definition setItems :: "property_record list \<Rightarrow> controller \<Rightarrow> controller" where
  "setItems xs s = syncSource (s\<lparr>items := xs\<rparr>)"

definition console_error :: "error \<Rightarrow> controller \<Rightarrow> controller" where
  "console_error e s = s\<lparr>console := console s @ [e]\<rparr>"

text \<open>
  The mount effect (lines 89 to 164), up to the registration of the \<open>load\<close> handler: it
  does nothing when the map exists already; otherwise it creates the map and the drawing
  tool. The handler it registers keeps the \<open>geojson\<close> of the render the effect belongs to.
\<close>

definition createMap :: "controller \<Rightarrow> controller" where
  "createMap s =
     (if mapRef s \<noteq> None then s
      else s\<lparr>mapRef := Some \<lparr>style_loaded = False, load_data = geojson (items s), source = None\<rparr>,
             drawRef := Some []\<rparr>)"

text \<open>The \<open>load\<close> handler (lines 128 to 161): \<open>addSource\<close> with the captured data.\<close>

definition onLoad :: "controller \<Rightarrow> controller" where
  "onLoad s =
     (case mapRef s of
        None \<Rightarrow> s
      | Some m \<Rightarrow> s\<lparr>mapRef := Some (m\<lparr>source := Some (load_data m)\<rparr>), loading := False\<rparr>)"

text \<open>
  \<open>loadAll\<close> (lines 176 to 184), \<open>runSearch\<close> (lines 189 to 204) and \<open>clearSearch\<close>
  (lines 206 to 211), each in two parts: the part that runs when the function is called,
  up to its \<open>await fetch\<close>, and the part that runs when that fetch has settled.
\<close>

definition loadAll :: "controller \<Rightarrow> controller" where
  "loadAll s = fetch (properties_request (backend s)) LoadAll s"

definition loadAll_settled :: "response \<Rightarrow> controller \<Rightarrow> controller" where
  "loadAll_settled r s =
     (case awaited_items r of
        Inr xs \<Rightarrow> setItems xs s
      | Inl e \<Rightarrow> console_error e s)"

definition runSearch :: "controller \<Rightarrow> controller" where
  "runSearch s =
     (case drawRef s of
        None \<Rightarrow> s
      | Some f \<Rightarrow>
          (case find (\<lambda>g. gtype (drawn_geometry g) = ''Polygon'') f of
             None \<Rightarrow> s
           | Some poly \<Rightarrow>
               fetch (search_request (backend s) (coordinates (drawn_geometry poly))) RunSearch s))"

definition runSearch_settled :: "response \<Rightarrow> controller \<Rightarrow> controller" where
  "runSearch_settled r s =
     (case awaited_items r of
        Inr xs \<Rightarrow> setItems xs s
      | Inl e \<Rightarrow> console_error e s)"

definition clearSearch :: "controller \<Rightarrow> controller" where
  "clearSearch s =
     fetch (properties_request (backend s)) ClearSearch
       (s\<lparr>drawRef := map_option (\<lambda>_. []) (drawRef s)\<rparr>)"

definition clearSearch_settled :: "response \<Rightarrow> controller \<Rightarrow> controller" where
  "clearSearch_settled r s =
     (case awaited_items r of
        Inr xs \<Rightarrow> setItems xs s
      | Inl e \<Rightarrow> s\<lparr>unhandled := unhandled s @ [e]\<rparr>)"

definition settled :: "operation \<Rightarrow> response \<Rightarrow> controller \<Rightarrow> controller" where
  "settled op r s =
     (case op of
        LoadAll \<Rightarrow> loadAll_settled r s
      | RunSearch \<Rightarrow> runSearch_settled r s
      | ClearSearch \<Rightarrow> clearSearch_settled r s)"

text \<open>
  The three effects run in the order of their declaration after the first render: the
  mount effect, the effect on \<open>[geojson]\<close>, and the initial load.
\<close>

definition mount :: "controller \<Rightarrow> controller" where
  "mount s = loadAll (syncSource (createMap s))"

section \<open>Events\<close>

text \<open>
  Everything runs on one thread, one event at a time: the first render, the map reporting
  its style as loaded or not, the map's \<open>load\<close> event, the user changing the drawn
  features, a click on one of the two buttons, and the fetch of the \<open>i\<close>-th suspended
  function settling.
\<close>

datatype event =
    Mount
  | StyleLoaded bool
  | MapLoad
  | UserDraws "drawn_feature list"
  | ClickSearch
  | ClickClear
  | Settles nat response

fun is_settle :: "event \<Rightarrow> bool" where
  "is_settle (Settles i r) = True"
| "is_settle e = False"

fun step :: "event \<Rightarrow> controller \<Rightarrow> controller" where
  "step Mount s = mount s"
| "step (StyleLoaded b) s = s\<lparr>mapRef := map_option (\<lambda>m. m\<lparr>style_loaded := b\<rparr>) (mapRef s)\<rparr>"
| "step MapLoad s = onLoad s"
| "step (UserDraws f) s = s\<lparr>drawRef := map_option (\<lambda>_. f) (drawRef s)\<rparr>"
| "step ClickSearch s = runSearch s"
| "step ClickClear s = clearSearch s"
| "step (Settles i r) s =
     (if i < length (pending s)
      then settled (pending s ! i) r
             (s\<lparr>pending := take i (pending s) @ drop (Suc i) (pending s)\<rparr>)
      else s)"

fun run :: "event list \<Rightarrow> controller \<Rightarrow> controller" where
  "run [] s = s"
| "run (e # es) s = run es (step e s)"

section \<open>The cluster click handler\<close>

text \<open>
  A feature returned by \<open>queryRenderedFeatures\<close>: its property \<open>cluster_id\<close> (\<open>None\<close>
  when the feature is not a cluster) and its geometry.
\<close>

record rendered_feature =
  cluster_id :: "nat option"
  rendered_geometry :: geojson_geometry

datatype command = EaseTo coords number

text \<open>
  The handler of lines 141 to 148, given the features under the click and the answer of
  \<open>getClusterExpansionZoom\<close> (\<open>Inl\<close> when its callback receives an error): it throws when
  there is no first feature, returns at an error, and otherwise eases the viewport.
\<close>

definition onClusterClick ::
  "rendered_feature list \<Rightarrow> (nat option \<Rightarrow> 'e + number) \<Rightarrow> error + command list" where
  "onClusterClick fs getClusterExpansionZoom =
     (case fs of
        [] \<Rightarrow> Inl TypeError
      | f0 # _ \<Rightarrow>
          (let clusterId = cluster_id f0 in
           case getClusterExpansionZoom clusterId of
             Inl err \<Rightarrow> Inr []
           | Inr zoom \<Rightarrow> Inr [EaseTo (coordinates (rendered_geometry f0)) zoom]))"

section \<open>Polygons as the specification describes them\<close>

text \<open>
  The specification's words for a ring: it is open when its last point differs from its
  first, and degenerate when it has fewer than three distinct vertices.
\<close>

definition spec_open_ring :: "position list \<Rightarrow> bool" where
  "spec_open_ring ring = (ring \<noteq> [] \<and> last ring \<noteq> hd ring)"

definition spec_degenerate_ring :: "position list \<Rightarrow> bool" where
  "spec_degenerate_ring ring = (length (remdups ring) < 3)"

section \<open>Sample data\<close>

definition point :: "number \<Rightarrow> number \<Rightarrow> geojson_geometry" where
  "point x y = \<lparr>gtype = ''Point'', coordinates = Position (x, y)\<rparr>"

definition record_x :: property_record where
  "record_x = \<lparr>pid = ''x'', title = ''X'', price = None, location = point 0 0\<rparr>"

definition record_y :: property_record where
  "record_y = \<lparr>pid = ''y'', title = ''Y'', price = Some 5, location = point 1 1\<rparr>"

definition two_records :: "property_record list" where
  "two_records =
     [\<lparr>pid = ''1'', title = ''A'', price = Some 100, location = point 0 0\<rparr>,
      \<lparr>pid = ''2'', title = ''B'', price = None, location = point 1 1\<rparr>]"

definition open_ring :: "position list" where
  "open_ring = [(0, 0), (1, 1)]"

definition square_ring :: "position list" where
  "square_ring = [(0, 0), (2, 0), (2, 2), (0, 2), (0, 0)]"

definition drawn_polygon :: "string \<Rightarrow> position list \<Rightarrow> drawn_feature" where
  "drawn_polygon i ring =
     \<lparr>drawn_id = i, drawn_geometry = \<lparr>gtype = ''Polygon'', coordinates = Rings [ring]\<rparr>\<rparr>"

definition drawn_line :: "string \<Rightarrow> position list \<Rightarrow> drawn_feature" where
  "drawn_line i ps =
     \<lparr>drawn_id = i, drawn_geometry = \<lparr>gtype = ''LineString'', coordinates = Positions ps\<rparr>\<rparr>"

definition found :: "property_record list \<Rightarrow> response" where
  "found xs = Json (JsonValue (Some xs))"

definition started :: controller where
  "started = run [Mount, Settles 0 (found [record_x])] (init (Some ''http://backend''))"

definition degenerate_ring :: "position list" where
  "degenerate_ring = [(0, 0), (0, 0)]"

definition triangle_ring :: "position list" where
  "triangle_ring = [(5, 5), (6, 5), (6, 6), (5, 5)]"

text \<open>
  The race of the specification's scenario on a loaded map: the initial load settles and
  the map loads; the search Q1 is issued, then the search Q2; Q2 (the second of the two
  suspended searches) settles first, with the record \<open>x\<close>, and the effect hands its
  collection to the source; while the map reports its style as not loaded (as it does
  while a source takes in new data), Q1 settles with the record \<open>y\<close>; then the map
  reports its style as loaded again.
\<close>

definition race :: "event list" where
  "race =
     [Mount, Settles 0 (found []), StyleLoaded True, MapLoad,
      UserDraws [drawn_polygon ''q1'' square_ring], ClickSearch,
      UserDraws [drawn_polygon ''q2'' triangle_ring], ClickSearch,
      Settles 1 (found [record_x]),
      StyleLoaded False,
      Settles 0 (found [record_y]),
      StyleLoaded True]"

section \<open>Auxiliary facts\<close>

lemmas ops_defs = mount_def createMap_def syncSource_def loadAll_def fetch_def
  properties_request_def search_request_def template_def settled_def loadAll_settled_def
  runSearch_settled_def clearSearch_settled_def awaited_items_def setItems_def
  console_error_def runSearch_def clearSearch_def onLoad_def init_def found_def

text \<open>The state after the first render and a successful initial load of one record.\<close>

lemma started_eval:
  "started =
     \<lparr>backend = Some ''http://backend'', items = [record_x], loading = True,
      mapRef = Some \<lparr>style_loaded = False, load_data = geojson [], source = None\<rparr>,
      drawRef = Some [],
      requests = [properties_request (Some ''http://backend'')],
      pending = [], console = [], unhandled = []\<rparr>"
  by (simp add: started_def mount_def createMap_def syncSource_def loadAll_def fetch_def
      settled_def loadAll_settled_def awaited_items_def setItems_def init_def found_def)

text \<open>Only \<open>setItems\<close> writes the dataset; the effect and the map touch the surface alone.\<close>

lemma items_syncSource: "items (syncSource s) = items s"
  by (simp add: syncSource_def split: option.splits)

lemma items_fetch: "items (fetch req op s) = items s"
  by (simp add: fetch_def)

lemma items_runSearch: "items (runSearch s) = items s"
  by (simp add: runSearch_def items_fetch split: option.splits)

lemma items_step: "\<not> is_settle e \<Longrightarrow> items (step e s) = items s"
  by (cases e)
     (simp_all add: mount_def loadAll_def createMap_def clearSearch_def onLoad_def
        items_fetch items_syncSource items_runSearch split: option.splits)

lemma items_run: "\<forall>e \<in> set es. \<not> is_settle e \<Longrightarrow> items (run es s) = items s"
  by (induction es arbitrary: s) (simp_all add: items_step)

lemma run_append: "run (es @ fs) s = run fs (run es s)"
  by (induction es arbitrary: s) simp_all

lemma items_settled: "awaited_items r = Inr xs \<Longrightarrow> items (settled op r s) = xs"
  by (cases op)
     (simp_all add: settled_def loadAll_settled_def runSearch_settled_def
        clearSearch_settled_def setItems_def items_syncSource)

lemma syncSource_outside:
  "requests (syncSource s) = requests s \<and> console (syncSource s) = console s \<and>
   unhandled (syncSource s) = unhandled s \<and> backend (syncSource s) = backend s"
  by (simp add: syncSource_def split: option.splits)

lemma createMap_outside:
  "requests (createMap s) = requests s \<and> console (createMap s) = console s \<and>
   unhandled (createMap s) = unhandled s \<and> backend (createMap s) = backend s"
  by (simp add: createMap_def)

lemma find_first:
  "\<forall>g \<in> set pre. \<not> P g \<Longrightarrow> P x \<Longrightarrow> find P (pre @ x # post) = Some x"
  by (induction pre) simp_all

section \<open>Fetches in flight\<close>

text \<open>
  The React state follows the order of completion: after any history, when the fetch of
  a suspended function settles with a result and no other fetch settles afterwards,
  \<open>items\<close> is that result, whatever the order in which the fetches were issued.
\<close>

lemma settled_fetch_sets_items:
  assumes "i < length (pending (run before s))"
    and "awaited_items r = Inr xs"
    and "\<forall>e \<in> set after. \<not> is_settle e"
  shows "items (run (before @ Settles i r # after) s) = xs"
  using assms by (simp add: run_append items_run items_settled)

text \<open>
  The result reaches the surface when the style is loaded and the source exists at the
  moment the fetch settles.
\<close>

lemma settled_fetch_reaches_ready_source:
  assumes "i < length (pending s)"
    and "awaited_items r = Inr xs"
    and "mapRef s = Some m" and "style_loaded m" and "source m = Some shown"
  shows "mapRef (step (Settles i r) s) = Some (m\<lparr>source := Some (geojson xs)\<rparr>)"
  using assms
  by (cases "pending s ! i")
     (simp_all add: settled_def loadAll_settled_def runSearch_settled_def
        clearSearch_settled_def setItems_def syncSource_def)

text \<open>
  Claim C1. With several fetches in flight, the visible dataset, once all of them have
  settled, should be the result of the fetch that settled last. The React state is: in
  the scenario of the specification (the searches Q1 and Q2 issued in this order, Q2
  settling first with the record \<open>x\<close> and Q1 second with the record \<open>y\<close>) \<open>items\<close>
  ends as \<open>[y]\<close>. The surface is not: when Q1 settles while the map reports its style
  as not loaded, the effect returns at its guard, nothing repeats the update, and the
  source goes on showing the collection of \<open>[x]\<close>, the result of the fetch that
  settled first.
\<close>

theorem last_settled_fetch_not_shown:
  "pending (run race (init (Some ''http://backend''))) = [] \<and>
   items (run race (init (Some ''http://backend''))) = [record_y] \<and>
   mapRef (run race (init (Some ''http://backend''))) =
     Some \<lparr>style_loaded = True, load_data = geojson [],
           source = Some (geojson [record_x])\<rparr> \<and>
   geojson [record_x] \<noteq> geojson [record_y]"
  by (simp add: race_def ops_defs drawn_polygon_def geojson_def record_x_def record_y_def)

section \<open>Failing fetches\<close>

text \<open>
  Claim C2. Every operation that issues a fetch should catch a failure of that fetch, log
  it and keep the dataset. \<open>loadAll\<close> and \<open>runSearch\<close> do; \<open>clearSearch\<close> has no
  \<open>try\<close>: when the fetch issued by a click on the clear button rejects, the error
  leaves \<open>clearSearch\<close> as a rejected promise and nothing is logged. The dataset is
  kept.
\<close>

theorem clearSearch_rejection_escapes:
  "unhandled (run [ClickClear, Settles 0 FetchRejects] started) = [NetworkError] \<and>
   console (run [ClickClear, Settles 0 FetchRejects] started) = [] \<and>
   items (run [ClickClear, Settles 0 FetchRejects] started) = [record_x] \<and>
   unhandled (run [ClickSearch, Settles 0 FetchRejects]
     (started\<lparr>drawRef := Some [drawn_polygon ''p'' square_ring]\<rparr>)) = [] \<and>
   console (run [ClickSearch, Settles 0 FetchRejects]
     (started\<lparr>drawRef := Some [drawn_polygon ''p'' square_ring]\<rparr>)) = [NetworkError]"
  by (simp add: started_eval clearSearch_def runSearch_def fetch_def settled_def
      clearSearch_settled_def runSearch_settled_def console_error_def awaited_items_def
      drawn_polygon_def)

text \<open>
  Claim C6, as stated, fails: a response that parses as JSON but has no \<open>items\<close> member
  is not of the expected shape, and the dataset is replaced by the empty sequence, in
  each of the three operations.
\<close>

theorem missing_items_counterexample:
  "items started = [record_x] \<and>
   items (run [ClickClear, Settles 0 (Json (JsonValue None))] started) = [] \<and>
   items (loadAll_settled (Json (JsonValue None)) started) = [] \<and>
   items (runSearch_settled (Json (JsonValue None)) started) = []"
  by (simp add: started_eval clearSearch_def fetch_def settled_def clearSearch_settled_def
      loadAll_settled_def runSearch_settled_def awaited_items_def setItems_def syncSource_def)

text \<open>
  Claim C6, amended. For every fetch, unfiltered or polygon-filtered, whose response
  body is not JSON or is the JSON value \<open>null\<close>, the dataset is not altered; a response
  that is JSON but has no \<open>items\<close> member replaces the dataset by the empty sequence.
\<close>

theorem unparseable_body_keeps_items:
  "(r \<in> {JsonRejects, Json JsonNull} \<longrightarrow> items (settled op r s) = items s) \<and>
   items (settled op (Json (JsonValue None)) s) = []"
  by (cases op)
     (auto simp add: settled_def loadAll_settled_def runSearch_settled_def
        clearSearch_settled_def awaited_items_def setItems_def console_error_def
        items_syncSource)

theorem unparseable_body_keeps_items_witness:
  "items (settled RunSearch JsonRejects started) = [record_x] \<and>
   items (settled RunSearch (Json (JsonValue None)) started) = []"
  using unparseable_body_keeps_items [of JsonRejects RunSearch started]
  by (simp add: started_eval)

section \<open>The derived collection\<close>

text \<open>
  Claim C3. For every dataset \<open>D\<close> the derived collection has exactly \<open>|D|\<close> features, in
  the order of \<open>D\<close>: the feature at index \<open>i\<close> carries the id and the title of the record
  at index \<open>i\<close>, has the record's location as its geometry, and its price is the record's
  price, or the empty string when the record has none.
\<close>

theorem geojson_features:
  "length (features (geojson D)) = length D \<and>
   (\<forall>i < length D.
      id_prop (properties (features (geojson D) ! i)) = pid (D ! i) \<and>
      title_prop (properties (features (geojson D) ! i)) = title (D ! i) \<and>
      geometry (features (geojson D) ! i) = location (D ! i) \<and>
      price_prop (properties (features (geojson D) ! i)) =
        (case price (D ! i) of None \<Rightarrow> Str '''' | Some n \<Rightarrow> Num n))"
  by (simp add: geojson_def)

theorem geojson_features_witness:
  "length (features (geojson two_records)) = 2 \<and>
   id_prop (properties (features (geojson two_records) ! 0)) = ''1'' \<and>
   price_prop (properties (features (geojson two_records) ! 0)) = Num 100 \<and>
   id_prop (properties (features (geojson two_records) ! 1)) = ''2'' \<and>
   title_prop (properties (features (geojson two_records) ! 1)) = ''B'' \<and>
   geometry (features (geojson two_records) ! 1) = point 1 1 \<and>
   price_prop (properties (features (geojson two_records) ! 1)) = Str ''''"
  using geojson_features [of two_records]
  by (simp add: two_records_def)

text \<open>
  Claim C4. A change of the derived collection while the surface is not ready should
  reach the surface once it is. It does not: when the initial load settles before the
  map's \<open>load\<close> event, the effect returns at its guard, and the \<open>load\<close> handler adds
  the source with the collection it closed over at the first render, derived from the
  empty dataset. The dataset holds the record and the source shows nothing.
\<close>

theorem early_items_never_reach_source:
  "items (run [Mount, Settles 0 (found [record_y]), StyleLoaded True, MapLoad]
            (init (Some ''http://backend''))) = [record_y] \<and>
   map_option source
     (mapRef (run [Mount, Settles 0 (found [record_y]), StyleLoaded True, MapLoad]
            (init (Some ''http://backend'')))) = Some (Some (geojson [])) \<and>
   pending (run [Mount, Settles 0 (found [record_y]), StyleLoaded True, MapLoad]
            (init (Some ''http://backend''))) = [] \<and>
   geojson [record_y] \<noteq> geojson []"
  by (simp add: ops_defs geojson_def)

section \<open>Searching\<close>

text \<open>
  Claim C5, as stated, fails: a drawn polygon whose ring is closed but degenerate (two
  points, one distinct vertex) is sent to the backend as it is.
\<close>

theorem runSearch_degenerate_ring_counterexample:
  "spec_degenerate_ring degenerate_ring \<and> \<not> spec_open_ring degenerate_ring \<and>
   requests (run [UserDraws [drawn_polygon ''p'' degenerate_ring], ClickSearch] started) =
     [\<lparr>url = ''http://backend/api/properties'', http_method = ''GET'', body = None\<rparr>,
      \<lparr>url = ''http://backend/api/properties/search'', http_method = ''POST'',
        body = Some \<lparr>gtype = ''Polygon'', coordinates = Rings [[(0, 0), (0, 0)]]\<rparr>\<rparr>]"
  by (simp add: started_eval spec_open_ring_def spec_degenerate_ring_def degenerate_ring_def
      drawn_polygon_def runSearch_def fetch_def properties_request_def search_request_def
      template_def)

text \<open>
  Claim C5, amended. For every drawn polygon passed to the search operation, degenerate
  or not, the polygon-filtered request is issued, and its body carries the polygon's
  coordinates exactly as the drawing tool holds them: the operation checks neither the
  closure of the ring nor the number of its vertices.
\<close>

theorem runSearch_sends_polygon_as_drawn:
  assumes "drawRef s = Some f"
    and "find (\<lambda>g. gtype (drawn_geometry g) = ''Polygon'') f = Some poly"
  shows "requests (runSearch s) =
           requests s @
             [\<lparr>url = template (backend s) @ ''/api/properties/search'',
               http_method = ''POST'',
               body = Some \<lparr>gtype = ''Polygon'',
                            coordinates = coordinates (drawn_geometry poly)\<rparr>\<rparr>]"
  using assms by (simp add: runSearch_def fetch_def search_request_def)

theorem runSearch_sends_polygon_as_drawn_witness:
  "spec_degenerate_ring degenerate_ring \<and>
   map body (requests (runSearch
      (started\<lparr>drawRef := Some [drawn_polygon ''p'' degenerate_ring]\<rparr>))) =
     [None, Some \<lparr>gtype = ''Polygon'', coordinates = Rings [[(0, 0), (0, 0)]]\<rparr>] \<and>
   map url (requests (runSearch
      (started\<lparr>drawRef := Some [drawn_polygon ''p'' degenerate_ring]\<rparr>))) =
     [''http://backend/api/properties'', ''http://backend/api/properties/search'']"
  using runSearch_sends_polygon_as_drawn
    [of "started\<lparr>drawRef := Some [drawn_polygon ''p'' degenerate_ring]\<rparr>"
        "[drawn_polygon ''p'' degenerate_ring]" "drawn_polygon ''p'' degenerate_ring"]
  by (simp add: started_eval drawn_polygon_def spec_degenerate_ring_def degenerate_ring_def
      properties_request_def template_def)

text \<open>
  Claim C7. When the drawing tool holds no polygon, the search operation does nothing:
  the state is returned as it was, so the dataset is unchanged and no request is issued.
\<close>

theorem runSearch_without_polygon:
  assumes "drawRef s = Some f"
    and "\<forall>g \<in> set f. gtype (drawn_geometry g) \<noteq> ''Polygon''"
  shows "runSearch s = s \<and> items (runSearch s) = items s \<and>
         requests (runSearch s) = requests s"
proof -
  from assms(2) have "find (\<lambda>g. gtype (drawn_geometry g) = ''Polygon'') f = None"
    by (simp add: find_None_iff)
  with assms(1) have "runSearch s = s"
    by (simp add: runSearch_def)
  then show ?thesis by simp
qed

theorem runSearch_without_polygon_witness:
  "runSearch (started\<lparr>drawRef := Some [drawn_line ''l'' open_ring]\<rparr>) =
     started\<lparr>drawRef := Some [drawn_line ''l'' open_ring]\<rparr> \<and>
   requests (runSearch (started\<lparr>drawRef := Some [drawn_line ''l'' open_ring]\<rparr>)) =
     [properties_request (Some ''http://backend'')]"
  using runSearch_without_polygon
    [of "started\<lparr>drawRef := Some [drawn_line ''l'' open_ring]\<rparr>" "[drawn_line ''l'' open_ring]"]
  by (simp add: started_eval drawn_line_def)

text \<open>
  Claim C10. When the drawing tool holds several geometries and one of them is a
  polygon, the search operation queries with the first polygon in the order of the
  collection: it issues exactly one request, a POST to the search endpoint whose body
  is a polygon with the coordinates of that first polygon, and whatever comes before it
  (no polygon) and after it (anything) has no part in the request or in the state.
\<close>

theorem runSearch_first_polygon:
  assumes "drawRef s = Some (pre @ poly # post)"
    and "\<forall>g \<in> set pre. gtype (drawn_geometry g) \<noteq> ''Polygon''"
    and "gtype (drawn_geometry poly) = ''Polygon''"
  shows "runSearch s =
           s\<lparr>requests := requests s @
                [\<lparr>url = template (backend s) @ ''/api/properties/search'',
                  http_method = ''POST'',
                  body = Some \<lparr>gtype = ''Polygon'',
                               coordinates = coordinates (drawn_geometry poly)\<rparr>\<rparr>],
             pending := pending s @ [RunSearch]\<rparr>"
proof -
  have "find (\<lambda>g. gtype (drawn_geometry g) = ''Polygon'') (pre @ poly # post) = Some poly"
    using assms(2,3) by (intro find_first) simp_all
  with assms(1) show ?thesis
    by (simp add: runSearch_def fetch_def search_request_def)
qed

theorem runSearch_first_polygon_witness:
  "map body (requests (runSearch (started\<lparr>drawRef :=
      Some [drawn_line ''l'' open_ring, drawn_polygon ''a'' square_ring,
            drawn_polygon ''b'' triangle_ring]\<rparr>))) =
     [None,
      Some \<lparr>gtype = ''Polygon'',
            coordinates = Rings [[(0, 0), (2, 0), (2, 2), (0, 2), (0, 0)]]\<rparr>] \<and>
   map url (requests (runSearch (started\<lparr>drawRef :=
      Some [drawn_line ''l'' open_ring, drawn_polygon ''a'' square_ring,
            drawn_polygon ''b'' triangle_ring]\<rparr>))) =
     [''http://backend/api/properties'', ''http://backend/api/properties/search''] \<and>
   pending (runSearch (started\<lparr>drawRef :=
      Some [drawn_line ''l'' open_ring, drawn_polygon ''a'' square_ring,
            drawn_polygon ''b'' triangle_ring]\<rparr>)) = [RunSearch]"
  using runSearch_first_polygon
    [of "started\<lparr>drawRef :=
      Some [drawn_line ''l'' open_ring, drawn_polygon ''a'' square_ring,
            drawn_polygon ''b'' triangle_ring]\<rparr>"
      "[drawn_line ''l'' open_ring]" "drawn_polygon ''a'' square_ring"
      "[drawn_polygon ''b'' triangle_ring]"]
  by (simp add: started_eval drawn_line_def drawn_polygon_def square_ring_def
      properties_request_def template_def)

section \<open>Cluster clicks\<close>

text \<open>
  Claim C8. A cluster click is a click on a rendered feature of the layer \<open>clusters\<close>,
  so the query at the clicked point returns at least that feature. If the lookup of the
  expansion zoom for its cluster id answers with an error, as it does for a feature
  that is not a cluster, the handler returns without throwing and without a viewport
  command.
\<close>

theorem cluster_lookup_failure_is_noop:
  assumes "getClusterExpansionZoom (cluster_id f0) = Inl err"
  shows "onClusterClick (f0 # rest) getClusterExpansionZoom = Inr []"
  using assms by (simp add: onClusterClick_def)

theorem cluster_lookup_failure_is_noop_witness:
  "onClusterClick [\<lparr>cluster_id = None, rendered_geometry = point 3 4\<rparr>]
     (\<lambda>c. case c of None \<Rightarrow> Inl ''no cluster'' | Some n \<Rightarrow> Inr 7) = Inr []"
  using cluster_lookup_failure_is_noop
    [of "\<lambda>c. case c of None \<Rightarrow> Inl ''no cluster'' | Some n \<Rightarrow> Inr 7"
        "\<lparr>cluster_id = None, rendered_geometry = point 3 4\<rparr>" "''no cluster''" "[]"]
  by simp

section \<open>Configuration\<close>

text \<open>
  Claim C9, as stated, fails: with no backend URL configured, the first render raises
  no error and logs nothing; it issues the initial load to the relative URL
  \<open>undefined/api/properties\<close>, and the absence shows only when that fetch fails.
\<close>

theorem absent_backend_counterexample:
  "requests (run [Mount] (init None)) =
     [\<lparr>url = ''undefined/api/properties'', http_method = ''GET'', body = None\<rparr>] \<and>
   console (run [Mount] (init None)) = [] \<and>
   unhandled (run [Mount] (init None)) = [] \<and>
   console (run [Mount, Settles 0 FetchRejects] (init None)) = [NetworkError]"
  by (simp add: ops_defs)

text \<open>
  Claim C9, amended. If the backend base URL is absent, nothing is reported at startup:
  the initial load, the clear operation and a search with a drawn polygon each issue
  their request, to a URL that begins with the text \<open>undefined\<close> in place of the base
  URL.
\<close>

theorem absent_backend_requests:
  assumes "backend s = None"
  shows "console (mount s) = console s \<and> unhandled (mount s) = unhandled s \<and>
         map url (requests (mount s)) = map url (requests s) @ [''undefined/api/properties''] \<and>
         map url (requests (clearSearch s)) =
           map url (requests s) @ [''undefined/api/properties''] \<and>
         (\<forall>f poly. drawRef s = Some f \<longrightarrow>
            find (\<lambda>g. gtype (drawn_geometry g) = ''Polygon'') f = Some poly \<longrightarrow>
            map url (requests (runSearch s)) =
              map url (requests s) @ [''undefined/api/properties/search''])"
  using assms
  by (simp add: mount_def loadAll_def clearSearch_def runSearch_def fetch_def
      syncSource_outside createMap_outside properties_request_def search_request_def
      template_def)

theorem absent_backend_requests_witness:
  "map url (requests (mount (init None))) = [''undefined/api/properties''] \<and>
   console (mount (init None)) = [] \<and>
   map url (requests (clearSearch (init None))) = [''undefined/api/properties'']"
  using absent_backend_requests [of "init None"]
  by (simp add: init_def)

end
